theory Spec2Isabelle
  imports Complex_Main
begin

section \<open>Data model of the flowchart editor\<close>

text \<open>
  The embedding follows the classes \<open>FlowchartEditor\<close> and \<open>FlowchartCanvas\<close>.
  JavaScript numbers are modelled by \<open>real\<close> for coordinates and by \<open>nat\<close> for the
  id counters (no rounding, no NaN); strings by \<open>string\<close>. Node type and status are plain
  strings, as in the source, which never restricts them to an enumeration. Field names carry
  a one-letter prefix because \<open>id\<close>, \<open>x\<close>, \<open>y\<close> would capture HOL names.
  Effects on the DOM and on the d3 selection (rendering, counters in the toolbar) are not
  part of the state.
\<close>

record style =
  backgroundColor :: string
  borderColor :: string
  textColor :: string

record node_metadata =
  category :: string
  priority :: string
  nstatus :: string
  nnote :: string

record node =
  nid :: string
  ntype :: string
  ntext :: string
  nx :: real
  ny :: real
  nwidth :: real
  nheight :: real
  nstyle :: style
  nmetadata :: node_metadata

record connection_metadata =
  cstatus :: string
  cnote :: string

record connection =
  cid :: string
  cfrom :: string
  cto :: string
  clabel :: string
  cstyle :: string
  cmetadata :: connection_metadata

record question =
  qid :: string
  qcategory :: string
  qtext :: string
  qanswer :: "string option"

record flowchart =
  fid :: string
  ftitle :: string
  fdescription :: string
  nodes :: "node list"
  connections :: "connection list"
  questions :: "question list"

text \<open>
  \<open>this.data\<close>. The descriptive fields are optional (\<open>None\<close> is JavaScript's
  \<open>undefined\<close>).
\<close>

record diagram =
  version :: int
  timestamp :: "string option"
  title :: "string option"
  description :: "string option"
  generalNotes :: "string option"
  flowcharts :: "flowchart list"

text \<open>
  \<open>selectedElement\<close> is a shallow copy of the selected element tagged with its kind;
  only the kind and the id of the copy are kept here.
\<close>

datatype selected = SelectedNode string | SelectedConnection string

text \<open>
  The editor object. \<open>notifications\<close> records the calls of \<open>showNotification\<close>, and
  \<open>showNotificationDefined\<close> is the test \<open>typeof showNotification !== 'undefined'\<close>.
  \<open>connectionInProgress\<close> keeps the \<open>from\<close> id of the pending connection.
\<close>

record editor =
  data :: diagram
  selectedElement :: "selected option"
  nextNodeId :: nat
  nextConnectionId :: nat
  nextQuestionId :: nat
  connectionInProgress :: "string option"
  showNotificationDefined :: bool
  notifications :: "(string \<times> string) list"

text \<open>
  A call either returns a value together with the editor it leaves behind, or throws
  (a \<open>TypeError\<close> on a property read of \<open>undefined\<close> or \<open>null\<close>) and leaves the editor
  as mutated up to the throw.
\<close>

datatype 'a outcome = Returned 'a editor | Thrown editor

fun editor_of :: "'a outcome \<Rightarrow> editor" where
  "editor_of (Returned v e) = e"
| "editor_of (Thrown e) = e"

fun returned :: "'a outcome \<Rightarrow> 'a option" where
  "returned (Returned v e) = Some v"
| "returned (Thrown e) = None"

fun returns :: "'a outcome \<Rightarrow> bool" where
  "returns (Returned v e) = True"
| "returns (Thrown e) = False"

text \<open>The constructor; \<open>now\<close> is \<open>new Date().toISOString()\<close>.\<close>

definition new_editor :: "string \<Rightarrow> bool \<Rightarrow> editor" where
  "new_editor now notifier =
     \<lparr> data = \<lparr> version = 1, timestamp = Some now, title = Some ''New Flowchart'',
                description = Some '''', generalNotes = Some '''',
                flowcharts = [\<lparr> fid = ''flowchart-1'', ftitle = ''Main Process'',
                                fdescription = '''', nodes = [], connections = [],
                                questions = [] \<rparr>] \<rparr>,
       selectedElement = None,
       nextNodeId = 1, nextConnectionId = 1, nextQuestionId = 1,
       connectionInProgress = None,
       showNotificationDefined = notifier,
       notifications = [] \<rparr>"

subsection \<open>Decimal strings\<close>

definition decimalDigits :: string where
  "decimalDigits = ''0123456789''"

definition digit_char :: "nat \<Rightarrow> char" where
  "digit_char d = decimalDigits ! d"

definition digit_val :: "char \<Rightarrow> nat" where
  "digit_val c = length (takeWhile (\<lambda>d. d \<noteq> c) decimalDigits)"

definition isDigit :: "char \<Rightarrow> bool" where
  "isDigit c = (c \<in> set decimalDigits)"

text \<open>The template literal \<open>`${n}`\<close> on a non-negative integer.\<close>

function toString :: "nat \<Rightarrow> string" where
  "toString n = (if n < 10 then [digit_char n] else toString (n div 10) @ [digit_char (n mod 10)])"
  by pat_completeness auto
termination
  by (relation "measure id") auto

declare toString.simps [simp del]

text \<open>\<open>parseInt\<close> on a string of decimal digits (the capture group \<open>\d+\<close>).\<close>

definition parseInt :: "string \<Rightarrow> nat" where
  "parseInt ds = foldl (\<lambda>acc c. acc * 10 + digit_val c) 0 ds"

text \<open>
  \<open>s.match(/<pre>(\d+)/)\<close> for a literal prefix \<open>pre\<close>: the leftmost position at which
  \<open>pre\<close> is followed by at least one digit, and there the longest run of digits.
\<close>

definition matchAt :: "string \<Rightarrow> string \<Rightarrow> string option" where
  "matchAt pre s =
     (if take (length pre) s = pre \<and> takeWhile isDigit (drop (length pre) s) \<noteq> []
      then Some (takeWhile isDigit (drop (length pre) s)) else None)"

fun regexMatch :: "string \<Rightarrow> string \<Rightarrow> string option" where
  "regexMatch pre [] = matchAt pre []"
| "regexMatch pre (c # cs) =
     (case matchAt pre (c # cs) of Some ds \<Rightarrow> Some ds | None \<Rightarrow> regexMatch pre cs)"

text \<open>\<open>match ? parseInt(match[1]) : 0\<close>\<close>

definition idNumber :: "string \<Rightarrow> string \<Rightarrow> nat" where
  "idNumber pre s = (case regexMatch pre s of Some ds \<Rightarrow> parseInt ds | None \<Rightarrow> 0)"

section \<open>FlowchartEditor\<close>

subsection \<open>Utility methods\<close>

text \<open>\<open>this.data.flowcharts[0]\<close>, which is \<open>undefined\<close> on an empty array.\<close>

definition getCurrentFlowchart :: "editor \<Rightarrow> flowchart option" where
  "getCurrentFlowchart e = (case flowcharts (data e) of [] \<Rightarrow> None | f # fs \<Rightarrow> Some f)"

text \<open>An assignment to fields of the object \<open>getCurrentFlowchart()\<close> returned.\<close>

definition updateCurrentFlowchart :: "(flowchart \<Rightarrow> flowchart) \<Rightarrow> editor \<Rightarrow> editor" where
  "updateCurrentFlowchart g e =
     e\<lparr>data := (data e)\<lparr>flowcharts :=
        (case flowcharts (data e) of [] \<Rightarrow> [] | f # fs \<Rightarrow> g f # fs)\<rparr>\<rparr>"

definition findNodeById :: "editor \<Rightarrow> string \<Rightarrow> node option outcome" where
  "findNodeById e nodeId =
     (case getCurrentFlowchart e of
        None \<Rightarrow> Thrown e
      | Some f \<Rightarrow> Returned (find (\<lambda>n. nid n = nodeId) (nodes f)) e)"

definition findConnectionById :: "editor \<Rightarrow> string \<Rightarrow> connection option outcome" where
  "findConnectionById e connectionId =
     (case getCurrentFlowchart e of
        None \<Rightarrow> Thrown e
      | Some f \<Rightarrow> Returned (find (\<lambda>c. cid c = connectionId) (connections f)) e)"

text \<open>
  A field assignment on the object that \<open>Array.prototype.find\<close> returned: the first
  element that satisfies the predicate changes, in place.
\<close>

fun updateFirst :: "('a \<Rightarrow> bool) \<Rightarrow> ('a \<Rightarrow> 'a) \<Rightarrow> 'a list \<Rightarrow> 'a list" where
  "updateFirst p g [] = []"
| "updateFirst p g (a # as) = (if p a then g a # as else a # updateFirst p g as)"

text \<open>
  The default tables. \<open>defaults[type] || 'Node'\<close> falls through to \<open>'Node'\<close> for the empty
  text of a connector as well. (Type strings that name a property of \<open>Object.prototype\<close>
  are outside the model.)
\<close>

definition getDefaultNodeText :: "string \<Rightarrow> string" where
  "getDefaultNodeText t =
     (if t = ''start'' then ''Start'' else if t = ''process'' then ''Process''
      else if t = ''decision'' then ''Decision?'' else if t = ''end'' then ''End''
      else ''Node'')"

definition getDefaultNodeSize :: "string \<Rightarrow> real \<times> real" where
  "getDefaultNodeSize t =
     (if t = ''start'' then (100, 60) else if t = ''process'' then (120, 60)
      else if t = ''decision'' then (100, 80) else if t = ''end'' then (100, 60)
      else if t = ''connector'' then (30, 30) else (120, 60))"

definition getDefaultNodeColor :: "string \<Rightarrow> string" where
  "getDefaultNodeColor t =
     (if t = ''start'' then ''#e8f5e8'' else if t = ''process'' then ''#e3f2fd''
      else if t = ''decision'' then ''#fff3e0'' else if t = ''end'' then ''#fce4ec''
      else if t = ''connector'' then ''#f5f5f5'' else ''#e3f2fd'')"

subsection \<open>Node management\<close>

definition newNode :: "nat \<Rightarrow> string \<Rightarrow> real \<Rightarrow> real \<Rightarrow> node" where
  "newNode k t x y =
     \<lparr> nid = ''node-'' @ toString k, ntype = t, ntext = getDefaultNodeText t,
       nx = x, ny = y,
       nwidth = fst (getDefaultNodeSize t), nheight = snd (getDefaultNodeSize t),
       nstyle = \<lparr> backgroundColor = getDefaultNodeColor t, borderColor = ''#1976d2'',
                  textColor = ''#000'' \<rparr>,
       nmetadata = \<lparr> category = ''core'', priority = ''medium'', nstatus = ''pending'',
                     nnote = [] \<rparr> \<rparr>"

text \<open>
  \<open>addNode\<close>: the counter is incremented before the active section is read, so the
  increment survives a throw.
\<close>

definition addNode :: "editor \<Rightarrow> string \<Rightarrow> real \<Rightarrow> real \<Rightarrow> node outcome" where
  "addNode e t x y =
     (let nodeData = newNode (nextNodeId e) t x y;
          e1 = e\<lparr>nextNodeId := nextNodeId e + 1\<rparr>
      in case getCurrentFlowchart e1 of
           None \<Rightarrow> Thrown e1
         | Some f \<Rightarrow> Returned nodeData
             (updateCurrentFlowchart (\<lambda>f. f\<lparr>nodes := nodes f @ [nodeData]\<rparr>) e1))"

text \<open>The five node updates share one shape: look the node up, assign if found.\<close>

definition updateNode :: "(node \<Rightarrow> node) \<Rightarrow> editor \<Rightarrow> string \<Rightarrow> unit outcome" where
  "updateNode g e nodeId =
     (case findNodeById e nodeId of
        Thrown e' \<Rightarrow> Thrown e'
      | Returned None e' \<Rightarrow> Returned () e'
      | Returned (Some n) e' \<Rightarrow>
          Returned () (updateCurrentFlowchart
            (\<lambda>f. f\<lparr>nodes := updateFirst (\<lambda>n. nid n = nodeId) g (nodes f)\<rparr>) e'))"

definition updateNodePosition :: "editor \<Rightarrow> string \<Rightarrow> real \<Rightarrow> real \<Rightarrow> unit outcome" where
  "updateNodePosition e nodeId x y = updateNode (\<lambda>n. n\<lparr>nx := x, ny := y\<rparr>) e nodeId"

definition updateNodeText :: "editor \<Rightarrow> string \<Rightarrow> string \<Rightarrow> unit outcome" where
  "updateNodeText e nodeId txt = updateNode (\<lambda>n. n\<lparr>ntext := txt\<rparr>) e nodeId"

definition updateNodeType :: "editor \<Rightarrow> string \<Rightarrow> string \<Rightarrow> unit outcome" where
  "updateNodeType e nodeId t =
     updateNode (\<lambda>n. n\<lparr>ntype := t,
                       nstyle := (nstyle n)\<lparr>backgroundColor := getDefaultNodeColor t\<rparr>,
                       nwidth := fst (getDefaultNodeSize t),
                       nheight := snd (getDefaultNodeSize t)\<rparr>) e nodeId"

definition updateNodeStatus :: "editor \<Rightarrow> string \<Rightarrow> string \<Rightarrow> unit outcome" where
  "updateNodeStatus e nodeId s =
     updateNode (\<lambda>n. n\<lparr>nmetadata := (nmetadata n)\<lparr>nstatus := s\<rparr>\<rparr>) e nodeId"

definition updateNodeNotes :: "editor \<Rightarrow> string \<Rightarrow> string \<Rightarrow> unit outcome" where
  "updateNodeNotes e nodeId notes =
     updateNode (\<lambda>n. n\<lparr>nmetadata := (nmetadata n)\<lparr>nnote := notes\<rparr>\<rparr>) e nodeId"

definition deleteNode :: "editor \<Rightarrow> string \<Rightarrow> unit outcome" where
  "deleteNode e nodeId =
     (case getCurrentFlowchart e of
        None \<Rightarrow> Thrown e
      | Some f \<Rightarrow> Returned ()
          (updateCurrentFlowchart
             (\<lambda>f. f\<lparr>nodes := filter (\<lambda>n. nid n \<noteq> nodeId) (nodes f),
                     connections := filter (\<lambda>c. cfrom c \<noteq> nodeId \<and> cto c \<noteq> nodeId)
                                      (connections f)\<rparr>) e))"

subsection \<open>Connection management\<close>

definition startConnection :: "editor \<Rightarrow> node \<Rightarrow> editor" where
  "startConnection e fromNode = e\<lparr>connectionInProgress := Some (nid fromNode)\<rparr>"

definition newConnection :: "nat \<Rightarrow> string \<Rightarrow> string \<Rightarrow> string \<Rightarrow> connection" where
  "newConnection k fromNodeId toNodeId label =
     \<lparr> cid = ''conn-'' @ toString k, cfrom = fromNodeId, cto = toNodeId, clabel = label,
       cstyle = ''solid'', cmetadata = \<lparr> cstatus = ''pending'', cnote = [] \<rparr> \<rparr>"

definition addConnection :: "editor \<Rightarrow> string \<Rightarrow> string \<Rightarrow> string \<Rightarrow> connection outcome" where
  "addConnection e fromNodeId toNodeId label =
     (let connectionData = newConnection (nextConnectionId e) fromNodeId toNodeId label;
          e1 = e\<lparr>nextConnectionId := nextConnectionId e + 1\<rparr>
      in case getCurrentFlowchart e1 of
           None \<Rightarrow> Thrown e1
         | Some f \<Rightarrow> Returned connectionData
             (updateCurrentFlowchart
                (\<lambda>f. f\<lparr>connections := connections f @ [connectionData]\<rparr>) e1))"

text \<open>
  \<open>completeConnection\<close>: the label defaults to the empty string; when \<open>addConnection\<close>
  throws, the pending connection is not reset.
\<close>

definition completeConnection :: "editor \<Rightarrow> node \<Rightarrow> unit outcome" where
  "completeConnection e toNode =
     (case connectionInProgress e of
        Some fromId \<Rightarrow>
          (if fromId \<noteq> nid toNode
           then (case addConnection e fromId (nid toNode) [] of
                   Thrown e' \<Rightarrow> Thrown e'
                 | Returned c e' \<Rightarrow> Returned () (e'\<lparr>connectionInProgress := None\<rparr>))
           else Returned () (e\<lparr>connectionInProgress := None\<rparr>))
      | None \<Rightarrow> Returned () (e\<lparr>connectionInProgress := None\<rparr>))"

definition updateConnection :: "(connection \<Rightarrow> connection) \<Rightarrow> editor \<Rightarrow> string \<Rightarrow> unit outcome" where
  "updateConnection g e connectionId =
     (case findConnectionById e connectionId of
        Thrown e' \<Rightarrow> Thrown e'
      | Returned None e' \<Rightarrow> Returned () e'
      | Returned (Some c) e' \<Rightarrow>
          Returned () (updateCurrentFlowchart
            (\<lambda>f. f\<lparr>connections :=
                     updateFirst (\<lambda>c. cid c = connectionId) g (connections f)\<rparr>) e'))"

text \<open>
  \<open>updateConnectionLabel\<close>: after the assignment, \<open>canvas.updateConnectionLabel\<close> places a
  non-empty label at the midpoint of the two endpoint nodes and throws when one of them is
  not found.
\<close>

definition updateConnectionLabel :: "editor \<Rightarrow> string \<Rightarrow> string \<Rightarrow> unit outcome" where
  "updateConnectionLabel e connectionId label =
     (case findConnectionById e connectionId of
        Thrown e' \<Rightarrow> Thrown e'
      | Returned None e' \<Rightarrow> Returned () e'
      | Returned (Some c) e' \<Rightarrow>
          (let e1 = updateCurrentFlowchart
                      (\<lambda>f. f\<lparr>connections :=
                               updateFirst (\<lambda>c. cid c = connectionId)
                                 (\<lambda>c. c\<lparr>clabel := label\<rparr>) (connections f)\<rparr>) e'
           in if label \<noteq> [] \<and>
                 (returned (findNodeById e1 (cfrom c)) = Some None \<or>
                  returned (findNodeById e1 (cto c)) = Some None)
              then Thrown e1 else Returned () e1))"

definition updateConnectionStyle :: "editor \<Rightarrow> string \<Rightarrow> string \<Rightarrow> unit outcome" where
  "updateConnectionStyle e connectionId st =
     updateConnection (\<lambda>c. c\<lparr>cstyle := st\<rparr>) e connectionId"

definition updateConnectionStatus :: "editor \<Rightarrow> string \<Rightarrow> string \<Rightarrow> unit outcome" where
  "updateConnectionStatus e connectionId s =
     updateConnection (\<lambda>c. c\<lparr>cmetadata := (cmetadata c)\<lparr>cstatus := s\<rparr>\<rparr>) e connectionId"

definition deleteConnection :: "editor \<Rightarrow> string \<Rightarrow> unit outcome" where
  "deleteConnection e connectionId =
     (case getCurrentFlowchart e of
        None \<Rightarrow> Thrown e
      | Some f \<Rightarrow> Returned ()
          (updateCurrentFlowchart
             (\<lambda>f. f\<lparr>connections := filter (\<lambda>c. cid c \<noteq> connectionId) (connections f)\<rparr>) e))"

definition clearSelection :: "editor \<Rightarrow> editor" where
  "clearSelection e = e\<lparr>selectedElement := None\<rparr>"

text \<open>
  \<open>clearAll\<close>: three assignments through \<open>getCurrentFlowchart()\<close>, the first of which
  throws when there is no section; then the selection is cleared.
\<close>

definition clearAll :: "editor \<Rightarrow> unit outcome" where
  "clearAll e =
     (case getCurrentFlowchart e of
        None \<Rightarrow> Thrown e
      | Some f \<Rightarrow> Returned ()
          (clearSelection
             (updateCurrentFlowchart
                (\<lambda>f. f\<lparr>nodes := [], connections := [], questions := []\<rparr>) e)))"

subsection \<open>Sequences of calls\<close>

datatype op = AddNode string real real | DeleteNode string
  | AddConnection string string string | ClearAll

fun apply_op :: "editor \<Rightarrow> op \<Rightarrow> editor" where
  "apply_op e (AddNode t x y) = editor_of (addNode e t x y)"
| "apply_op e (DeleteNode i) = editor_of (deleteNode e i)"
| "apply_op e (AddConnection a b l) = editor_of (addConnection e a b l)"
| "apply_op e ClearAll = editor_of (clearAll e)"

definition run :: "editor \<Rightarrow> op list \<Rightarrow> editor" where
  "run e ops = foldl apply_op e ops"


section \<open>FlowchartCanvas\<close>

subsection \<open>Edge path geometry\<close>

record point =
  px :: real
  py :: real

text \<open>\<open>Math.atan2\<close> on real numbers.\<close>

definition atan2 :: "real \<Rightarrow> real \<Rightarrow> real" where
  "atan2 dy dx =
     (if dx > 0 then arctan (dy / dx)
      else if dx < 0 then (if dy \<ge> 0 then arctan (dy / dx) + pi else arctan (dy / dx) - pi)
      else if dy > 0 then pi / 2 else if dy < 0 then - (pi / 2) else 0)"

text \<open>
  \<open>getNodeEdgePoint\<close>. The result \<open>None\<close> stands for a point with a coordinate that is
  NaN or infinite, which arises from the divisions by zero written out below: in the
  decision branch \<open>slope = dy / dx\<close> is NaN when both are zero and infinite when only
  \<open>dx\<close> is, in which case \<open>(y - centerY) / slope\<close> is zero.
\<close>

definition getNodeEdgePoint :: "node \<Rightarrow> point \<Rightarrow> point option" where
  "getNodeEdgePoint n targetPoint =
     (let centerX = nx n + nwidth n / 2;
          centerY = ny n + nheight n / 2;
          dx = px targetPoint - centerX;
          dy = py targetPoint - centerY
      in if ntype n = ''start'' \<or> ntype n = ''end'' then
           (let a = nwidth n / 2; b = nheight n / 2; angle = atan2 dy dx
            in Some \<lparr> px = centerX + a * cos angle, py = centerY + b * sin angle \<rparr>)
         else if ntype n = ''decision'' then
           (let halfWidth = nwidth n / 2; halfHeight = nheight n / 2
            in if \<bar>dx\<bar> > \<bar>dy\<bar> then
                 (let x = (if dx > 0 then centerX + halfWidth else centerX - halfWidth);
                      y = centerY + (dy / dx) * (x - centerX)
                  in Some \<lparr> px = x,
                            py = max (centerY - halfHeight) (min (centerY + halfHeight) y) \<rparr>)
               else
                 (let y = (if dy > 0 then centerY + halfHeight else centerY - halfHeight)
                  in if dx = 0 \<and> dy = 0 then None
                     else (let x = (if dx = 0 then centerX
                                    else centerX + (y - centerY) / (dy / dx))
                           in Some \<lparr> px = max (centerX - halfWidth)
                                              (min (centerX + halfWidth) x),
                                     py = y \<rparr>)))
         else
           (let rectHalfWidth = nwidth n / 2; rectHalfHeight = nheight n / 2
            in if \<bar>dx\<bar> * rectHalfHeight > \<bar>dy\<bar> * rectHalfWidth then
                 (let x = (if dx > 0 then centerX + rectHalfWidth else centerX - rectHalfWidth)
                  in if dx = 0 then None
                     else Some \<lparr> px = x, py = centerY + dy * rectHalfWidth / \<bar>dx\<bar> \<rparr>)
               else
                 (let y = (if dy > 0 then centerY + rectHalfHeight else centerY - rectHalfHeight)
                  in if dy = 0 then None
                     else Some \<lparr> px = centerX + dx * rectHalfHeight / \<bar>dy\<bar>, py = y \<rparr>)))"

text \<open>
  \<open>calculateConnectionPath\<close> returns the SVG path \<open>M s C c1, c2, t\<close>; the four points
  of that string are kept.
\<close>

record curve =
  c_start :: point
  c_control1 :: point
  c_control2 :: point
  c_end :: point

definition calculateConnectionPath :: "node \<Rightarrow> node \<Rightarrow> curve option" where
  "calculateConnectionPath sourceNode targetNode =
     (let sourceCenter = \<lparr> px = nx sourceNode + nwidth sourceNode / 2,
                            py = ny sourceNode + nheight sourceNode / 2 \<rparr>;
          targetCenter = \<lparr> px = nx targetNode + nwidth targetNode / 2,
                            py = ny targetNode + nheight targetNode / 2 \<rparr>
      in case (getNodeEdgePoint sourceNode targetCenter,
               getNodeEdgePoint targetNode sourceCenter) of
           (Some sourcePoint, Some targetPoint) \<Rightarrow>
             (let controlOffset = \<bar>px targetPoint - px sourcePoint\<bar> * (3 / 10)
              in Some \<lparr> c_start = sourcePoint,
                        c_control1 = \<lparr> px = px sourcePoint + controlOffset,
                                        py = py sourcePoint \<rparr>,
                        c_control2 = \<lparr> px = px targetPoint - controlOffset,
                                        py = py targetPoint \<rparr>,
                        c_end = targetPoint \<rparr>)
         | _ \<Rightarrow> None)"

subsection \<open>Viewport\<close>

record bounds =
  b_minX :: real
  b_minY :: real
  b_width :: real
  b_height :: real

text \<open>
  \<open>calculateBounds\<close>; on an empty array \<open>Math.min()\<close> and \<open>Math.max()\<close> are infinite,
  which is \<open>None\<close> here.
\<close>

definition calculateBounds :: "node list \<Rightarrow> bounds option" where
  "calculateBounds ns =
     (case ns of
        [] \<Rightarrow> None
      | n # rest \<Rightarrow>
          (let minX = fold min (map nx rest) (nx n);
               minY = fold min (map ny rest) (ny n);
               maxX = fold max (map (\<lambda>n. nx n + nwidth n) rest) (nx n + nwidth n);
               maxY = fold max (map (\<lambda>n. ny n + nheight n) rest) (ny n + nheight n)
           in Some \<lparr> b_minX = minX, b_minY = minY,
                     b_width = maxX - minX, b_height = maxY - minY \<rparr>))"

text \<open>
  The zoom transform \<open>(k, x, y)\<close> that d3 keeps for the SVG element, and the size of the
  element's bounding client rectangle.
\<close>

record transform =
  t_k :: real
  t_x :: real
  t_y :: real

record canvas =
  zoomTransform :: transform
  svgWidth :: real
  svgHeight :: real

text \<open>
  \<open>fitToScreen\<close>: the transform at the end of the transition is
  \<open>zoomIdentity.translate(translateX, translateY).scale(scale)\<close>, which \<open>zoom.transform\<close>
  installs as given. \<open>FitThrown\<close> is the \<open>TypeError\<close> when there is no section;
  \<open>FitNotFinite\<close> marks a zero denominator in the scale (or infinite bounds), whose
  IEEE result is not a real number.
\<close>

datatype fit = Fitted canvas | FitThrown | FitNotFinite

definition fitToScreen :: "editor \<Rightarrow> canvas \<Rightarrow> fit" where
  "fitToScreen e c =
     (case getCurrentFlowchart e of
        None \<Rightarrow> FitThrown
      | Some f \<Rightarrow>
          if length (nodes f) = 0 then Fitted c
          else
          (case calculateBounds (nodes f) of
             None \<Rightarrow> FitNotFinite
           | Some b \<Rightarrow>
               (let padding = 50 in
                if b_width b + padding * 2 = 0 \<or> b_height b + padding * 2 = 0
                then FitNotFinite
                else
                  (let scale = min (svgWidth c / (b_width b + padding * 2))
                                   (svgHeight c / (b_height b + padding * 2));
                       translateX = (svgWidth c - b_width b * scale) / 2 - b_minX b * scale;
                       translateY = (svgHeight c - b_height b * scale) / 2 - b_minY b * scale
                   in Fitted (c\<lparr>zoomTransform :=
                                   \<lparr> t_k = scale, t_x = translateX, t_y = translateY \<rparr>\<rparr>)))))"

text \<open>The image of a model-space point under a zoom transform.\<close>

definition applyTransform :: "transform \<Rightarrow> point \<Rightarrow> point" where
  "applyTransform t p = \<lparr> px = t_x t + t_k t * px p, py = t_y t + t_k t * py p \<rparr>"

subsection \<open>Example states\<close>

text \<open>A fresh editor with one process node, whose status was set to \<open>approved\<close>.\<close>

definition approvedEditor :: editor where
  "approvedEditor =
     editor_of (updateNodeStatus (editor_of (addNode (new_editor [] True) ''process'' 0 0))
                  ''node-1'' ''approved'')"

text \<open>
  A fresh editor with one node and one connection whose \<open>from\<close> id names no node
  (\<open>addConnection\<close> does not check its endpoints).
\<close>

definition danglingEditor :: editor where
  "danglingEditor =
     editor_of (addConnection (editor_of (addNode (new_editor [] True) ''process'' 0 0))
                  ''node-9'' ''node-1'' [])"

subsection \<open>Invariant of the node ids\<close>

text \<open>
  The node ids of the active section are pairwise different, and each is \<open>node-k\<close> for a
  \<open>k\<close> below the counter.
\<close>

definition node_ids_ok :: "editor \<Rightarrow> bool" where
  "node_ids_ok e =
     (\<exists>f. getCurrentFlowchart e = Some f \<and> distinct (map nid (nodes f)) \<and>
          (\<forall>n\<in>set (nodes f). \<exists>k<nextNodeId e. nid n = ''node-'' @ toString k))"

text \<open>
  Three nodes and three connections: \<open>node-1\<close> is the \<open>from\<close> of \<open>conn-1\<close> and the \<open>to\<close> of
  \<open>conn-2\<close>; \<open>conn-3\<close> does not touch it.
\<close>

definition cascadeOps :: "op list" where
  "cascadeOps =
     [AddNode ''start'' 0 0, AddNode ''process'' 0 100, AddNode ''end'' 0 200,
      AddConnection ''node-1'' ''node-2'' [], AddConnection ''node-3'' ''node-1'' [],
      AddConnection ''node-2'' ''node-3'' []]"

text \<open>The editor whose only node is a start node (size 100 by 60) at \<open>(10, 10)\<close>.\<close>

definition singleNodeEditor :: editor where
  "singleNodeEditor = editor_of (addNode (new_editor [] True) ''start'' 10 10)"

section \<open>Properties\<close>

subsection \<open>Decimal strings and id counters\<close>

lemma digit_cases:
  "d < 10 \<Longrightarrow> d = 0 \<or> d = 1 \<or> d = 2 \<or> d = 3 \<or> d = 4 \<or> d = 5 \<or> d = 6 \<or> d = 7 \<or> d = 8 \<or> d = (9::nat)"
  by arith

lemma digit_val_digit_char: "d < 10 \<Longrightarrow> digit_val (digit_char d) = d"
  using digit_cases [of d]
  by (auto simp: digit_val_def digit_char_def decimalDigits_def)


lemma parseInt_snoc: "parseInt (ds @ [c]) = parseInt ds * 10 + digit_val c"
  unfolding parseInt_def by simp

lemma parseInt_toString: "parseInt (toString n) = n"
proof (induction n rule: toString.induct)
  case (1 n)
  show ?case
  proof (cases "n < 10")
    case True
    then show ?thesis
      by (subst toString.simps) (simp add: parseInt_def digit_val_digit_char)
  next
    case False
    then have "parseInt (toString (n div 10)) = n div 10" using 1 by simp
    with False show ?thesis
      by (subst toString.simps) (simp add: parseInt_snoc digit_val_digit_char)
  qed
qed








lemma getCurrentFlowchart_update:
  "getCurrentFlowchart e = Some f \<Longrightarrow>
   getCurrentFlowchart (updateCurrentFlowchart g e) = Some (g f)"
  unfolding getCurrentFlowchart_def updateCurrentFlowchart_def
  by (auto split: list.splits)

lemma addNode_Returned:
  "getCurrentFlowchart e = Some f \<Longrightarrow>
   addNode e t x y = Returned (newNode (nextNodeId e) t x y)
     (updateCurrentFlowchart (\<lambda>f. f\<lparr>nodes := nodes f @ [newNode (nextNodeId e) t x y]\<rparr>)
        (e\<lparr>nextNodeId := nextNodeId e + 1\<rparr>))"
  unfolding addNode_def getCurrentFlowchart_def by (auto simp: Let_def split: list.splits)

lemmas id_defs = idNumber_def matchAt_def isDigit_def parseInt_def digit_val_def digit_char_def
  decimalDigits_def toString.simps newNode_def


subsection \<open>Editor operations\<close>

lemma updateCurrentFlowchart_same:
  "getCurrentFlowchart e = Some f \<Longrightarrow> g f = f \<Longrightarrow> updateCurrentFlowchart g e = e"
  unfolding getCurrentFlowchart_def updateCurrentFlowchart_def
  by (auto split: list.splits)



lemma findConnectionById_Some:
  "returned (findConnectionById e i) = Some r \<Longrightarrow>
   \<exists>f. getCurrentFlowchart e = Some f \<and> find (\<lambda>c. cid c = i) (connections f) = r \<and>
       findConnectionById e i = Returned r e"
  unfolding findConnectionById_def by (auto split: option.splits)


lemma addConnection_Returned:
  "getCurrentFlowchart e = Some f \<Longrightarrow>
   addConnection e a b l = Returned (newConnection (nextConnectionId e) a b l)
     (updateCurrentFlowchart
        (\<lambda>f. f\<lparr>connections := connections f @ [newConnection (nextConnectionId e) a b l]\<rparr>)
        (e\<lparr>nextConnectionId := nextConnectionId e + 1\<rparr>))"
  unfolding addConnection_def getCurrentFlowchart_def by (auto simp: Let_def split: list.splits)



subsection \<open>Status\<close>


lemmas editor_defs = new_editor_def getCurrentFlowchart_def updateCurrentFlowchart_def
  findNodeById_def findConnectionById_def addNode_def addConnection_def updateNode_def
  updateConnection_def deleteNode_def deleteConnection_def clearAll_def clearSelection_def
  newNode_def newConnection_def Let_def toString.simps digit_char_def decimalDigits_def


subsection \<open>The connect gesture\<close>

lemma completeConnection_self:
  "connectionInProgress e = Some (nid toNode) \<Longrightarrow>
   completeConnection e toNode = Returned () (e\<lparr>connectionInProgress := None\<rparr>)"
  unfolding completeConnection_def by simp

lemma completeConnection_other:
  assumes "connectionInProgress e = Some a" and "a \<noteq> nid toNode"
    and "getCurrentFlowchart e = Some f"
  shows "completeConnection e toNode =
     Returned ()
       ((updateCurrentFlowchart
          (\<lambda>f. f\<lparr>connections := connections f @
                    [newConnection (nextConnectionId e) a (nid toNode) []]\<rparr>)
          (e\<lparr>nextConnectionId := nextConnectionId e + 1\<rparr>))\<lparr>connectionInProgress := None\<rparr>)"
  unfolding completeConnection_def
  using assms by (simp add: addConnection_Returned [OF assms(3)])

lemma getCurrentFlowchart_fields [simp]:
  "getCurrentFlowchart (e\<lparr>connectionInProgress := v\<rparr>) = getCurrentFlowchart e"
  "getCurrentFlowchart (e\<lparr>nextConnectionId := k\<rparr>) = getCurrentFlowchart e"
  "getCurrentFlowchart (e\<lparr>nextNodeId := k\<rparr>) = getCurrentFlowchart e"
  "getCurrentFlowchart (e\<lparr>selectedElement := s\<rparr>) = getCurrentFlowchart e"
  "getCurrentFlowchart (e\<lparr>notifications := ns\<rparr>) = getCurrentFlowchart e"
  unfolding getCurrentFlowchart_def by simp_all

lemma updateCurrentFlowchart_fields [simp]:
  "updateCurrentFlowchart g (e\<lparr>connectionInProgress := v\<rparr>) =
     (updateCurrentFlowchart g e)\<lparr>connectionInProgress := v\<rparr>"
  "updateCurrentFlowchart g (e\<lparr>nextConnectionId := k\<rparr>) =
     (updateCurrentFlowchart g e)\<lparr>nextConnectionId := k\<rparr>"
  "updateCurrentFlowchart g (e\<lparr>nextNodeId := k\<rparr>) =
     (updateCurrentFlowchart g e)\<lparr>nextNodeId := k\<rparr>"
  "updateCurrentFlowchart g (e\<lparr>selectedElement := s\<rparr>) =
     (updateCurrentFlowchart g e)\<lparr>selectedElement := s\<rparr>"
  unfolding updateCurrentFlowchart_def by simp_all

text \<open>
  Claim C9. A connect gesture is \<open>startConnection\<close> on a node followed by
  \<open>completeConnection\<close> on a node. In an editor with an active section the gesture
  returns and clears the pending connection. When the target's id is the id of the
  originating node, nothing else changes: no edge is created. When the ids differ, the
  connections of the active section grow by exactly the edge that \<open>addConnection\<close>
  builds from the originating id to the target id. So every edge that a gesture adds has
  \<open>from \<noteq> to\<close>, although \<open>addConnection\<close> called with equal ids does append a self-loop.
\<close>

theorem connect_gesture_no_self_loop:
  assumes "getCurrentFlowchart e = Some f"
  shows "\<exists>e' f'. completeConnection (startConnection e fromNode) toNode = Returned () e' \<and>
           connectionInProgress e' = None \<and>
           getCurrentFlowchart e' = Some f' \<and>
           (nid toNode = nid fromNode \<longrightarrow> e' = e\<lparr>connectionInProgress := None\<rparr>) \<and>
           (nid toNode \<noteq> nid fromNode \<longrightarrow>
              connections f' = connections f @
                [newConnection (nextConnectionId e) (nid fromNode) (nid toNode) []] \<and>
              returned (addConnection e (nid fromNode) (nid toNode) []) =
                Some (last (connections f'))) \<and>
           (\<forall>c\<in>set (connections f'). c \<notin> set (connections f) \<longrightarrow> cfrom c \<noteq> cto c) \<and>
           (\<exists>c e2 f2. addConnection e (nid toNode) (nid toNode) l = Returned c e2 \<and>
              cfrom c = cto c \<and> getCurrentFlowchart e2 = Some f2 \<and>
              connections f2 = connections f @ [c])"
proof -
  let ?s = "startConnection e fromNode"
  have s: "connectionInProgress ?s = Some (nid fromNode)" "getCurrentFlowchart ?s = Some f"
    "nextConnectionId ?s = nextConnectionId e"
    using assms by (simp_all add: startConnection_def)
  let ?c = "newConnection (nextConnectionId e) (nid toNode) (nid toNode) l"
  have loop: "\<exists>c e2 f2. addConnection e (nid toNode) (nid toNode) l = Returned c e2 \<and>
              cfrom c = cto c \<and> getCurrentFlowchart e2 = Some f2 \<and>
              connections f2 = connections f @ [c]"
    apply (rule exI [of _ ?c])
    apply (rule exI)
    apply (rule exI [of _ "f\<lparr>connections := connections f @ [?c]\<rparr>"])
    apply (intro conjI)
       apply (rule addConnection_Returned [OF assms])
      apply (simp add: newConnection_def)
     apply (simp add: getCurrentFlowchart_update [OF assms])
    apply simp
    done
  show ?thesis
  proof (cases "nid toNode = nid fromNode")
    case True
    then have "completeConnection ?s toNode = Returned () (?s\<lparr>connectionInProgress := None\<rparr>)"
      using completeConnection_self [of ?s toNode] s(1) by simp
    moreover have "?s\<lparr>connectionInProgress := None\<rparr> = e\<lparr>connectionInProgress := None\<rparr>"
      by (simp add: startConnection_def)
    ultimately show ?thesis
      using True assms loop by auto
  next
    case False
    let ?n = "newConnection (nextConnectionId e) (nid fromNode) (nid toNode) []"
    let ?f' = "f\<lparr>connections := connections f @ [?n]\<rparr>"
    let ?e' = "(updateCurrentFlowchart (\<lambda>f. f\<lparr>connections := connections f @ [?n]\<rparr>)
          (?s\<lparr>nextConnectionId := nextConnectionId e + 1\<rparr>))\<lparr>connectionInProgress := None\<rparr>"
    from False have ne: "nid fromNode \<noteq> nid toNode" by simp
    have r: "completeConnection ?s toNode = Returned () ?e'"
      using completeConnection_other [OF s(1) ne s(2)] s(3) by simp
    have g: "getCurrentFlowchart ?e' = Some ?f'"
      using getCurrentFlowchart_update [OF s(2)] by simp
    have a: "returned (addConnection e (nid fromNode) (nid toNode) []) = Some ?n"
      by (simp add: addConnection_Returned [OF assms])
    have nl: "cfrom ?n \<noteq> cto ?n"
      using ne by (simp add: newConnection_def)
    show ?thesis
      apply (rule exI [of _ ?e'])
      apply (rule exI [of _ ?f'])
      using r g a nl False loop by auto
  qed
qed

theorem connect_gesture_no_self_loop_witness:
  "getCurrentFlowchart approvedEditor \<noteq> None \<and>
   completeConnection (startConnection approvedEditor (newNode 1 ''process'' 0 0))
       (newNode 1 ''process'' 0 0)
     = Returned () (approvedEditor\<lparr>connectionInProgress := None\<rparr>) \<and>
   map_option cfrom (returned (addConnection approvedEditor ''node-1'' ''node-1'' []))
     = Some ''node-1'' \<and>
   map_option cto (returned (addConnection approvedEditor ''node-1'' ''node-1'' []))
     = Some ''node-1''"
proof -
  obtain f where f: "getCurrentFlowchart approvedEditor = Some f"
    by (simp add: approvedEditor_def updateNodeStatus_def editor_defs)
  let ?n = "newNode 1 ''process'' 0 0"
  from connect_gesture_no_self_loop [OF f, of ?n ?n "[]"] obtain e' where
    e': "completeConnection (startConnection approvedEditor ?n) ?n = Returned () e'"
        "e' = approvedEditor\<lparr>connectionInProgress := None\<rparr>"
    by auto
  from connect_gesture_no_self_loop [OF f, of ?n ?n "[]"] obtain c e2 where
    c: "addConnection approvedEditor (nid ?n) (nid ?n) [] = Returned c e2" "cfrom c = cto c"
    by auto
  have i: "nid ?n = ''node-1''"
    by (simp add: editor_defs)
  have "cfrom c = ''node-1''"
    using c(1) unfolding i by (auto simp: addConnection_def Let_def newConnection_def split: option.splits)
  with c e' f show ?thesis unfolding i by simp
qed

subsection \<open>Unknown ids\<close>

lemma filter_all: "\<forall>a\<in>set xs. P a \<Longrightarrow> filter P xs = xs"
  by (induction xs) auto

lemma find_None_all: "find P xs = None \<Longrightarrow> \<forall>a\<in>set xs. \<not> P a"
  by (simp add: find_None_iff)

lemma updateNode_missing:
  "getCurrentFlowchart e = Some f \<Longrightarrow> find (\<lambda>n. nid n = i) (nodes f) = None \<Longrightarrow>
   updateNode g e i = Returned () e"
  unfolding updateNode_def findNodeById_def by simp

lemma updateConnection_missing:
  "getCurrentFlowchart e = Some f \<Longrightarrow> find (\<lambda>c. cid c = i) (connections f) = None \<Longrightarrow>
   updateConnection g e i = Returned () e"
  unfolding updateConnection_def findConnectionById_def by simp

lemma updateConnectionLabel_missing:
  "getCurrentFlowchart e = Some f \<Longrightarrow> find (\<lambda>c. cid c = i) (connections f) = None \<Longrightarrow>
   updateConnectionLabel e i l = Returned () e"
  unfolding updateConnectionLabel_def findConnectionById_def by simp

lemma deleteConnection_missing:
  assumes "getCurrentFlowchart e = Some f" and "find (\<lambda>c. cid c = i) (connections f) = None"
  shows "deleteConnection e i = Returned () e"
proof -
  have "filter (\<lambda>c. cid c \<noteq> i) (connections f) = connections f"
    using find_None_all [OF assms(2)] by (intro filter_all) simp
  then have "updateCurrentFlowchart
     (\<lambda>f. f\<lparr>connections := filter (\<lambda>c. cid c \<noteq> i) (connections f)\<rparr>) e = e"
    by (intro updateCurrentFlowchart_same [OF assms(1)]) simp
  then show ?thesis
    unfolding deleteConnection_def using assms(1) by simp
qed

lemma deleteNode_missing:
  assumes "getCurrentFlowchart e = Some f" and "find (\<lambda>n. nid n = i) (nodes f) = None"
    and "\<forall>c\<in>set (connections f). cfrom c \<noteq> i \<and> cto c \<noteq> i"
  shows "deleteNode e i = Returned () e"
proof -
  have n: "filter (\<lambda>n. nid n \<noteq> i) (nodes f) = nodes f"
    using find_None_all [OF assms(2)] by (intro filter_all) simp
  have c: "filter (\<lambda>c. cfrom c \<noteq> i \<and> cto c \<noteq> i) (connections f) = connections f"
    using assms(3) by (intro filter_all) simp
  have "updateCurrentFlowchart
     (\<lambda>f. f\<lparr>nodes := filter (\<lambda>n. nid n \<noteq> i) (nodes f),
             connections := filter (\<lambda>c. cfrom c \<noteq> i \<and> cto c \<noteq> i) (connections f)\<rparr>) e = e"
    by (intro updateCurrentFlowchart_same [OF assms(1)]) (simp add: n c)
  then show ?thesis
    unfolding deleteNode_def using assms(1) by simp
qed

text \<open>
  Claim C7, as amended. In an editor with an active section: the five node updates called
  with an id that \<open>findNodeById\<close> does not find, and the three connection updates and
  \<open>deleteConnection\<close> called with an id that \<open>findConnectionById\<close> does not find, return
  normally, with the same (void) result as a call that finds its target, and leave the
  editor as it was. \<open>deleteNode\<close> does so when its id names no node and is moreover
  neither the \<open>from\<close> nor the \<open>to\<close> of any connection.
\<close>

theorem missing_id_is_noop:
  assumes "getCurrentFlowchart e = Some f"
  shows "(find (\<lambda>n. nid n = i) (nodes f) = None \<longrightarrow>
            updateNodePosition e i x y = Returned () e \<and>
            updateNodeText e i txt = Returned () e \<and>
            updateNodeType e i t = Returned () e \<and>
            updateNodeStatus e i s = Returned () e \<and>
            updateNodeNotes e i notes = Returned () e) \<and>
         (find (\<lambda>c. cid c = i) (connections f) = None \<longrightarrow>
            updateConnectionLabel e i l = Returned () e \<and>
            updateConnectionStyle e i st = Returned () e \<and>
            updateConnectionStatus e i s = Returned () e \<and>
            deleteConnection e i = Returned () e) \<and>
         (find (\<lambda>n. nid n = i) (nodes f) = None \<and>
          (\<forall>c\<in>set (connections f). cfrom c \<noteq> i \<and> cto c \<noteq> i) \<longrightarrow>
            deleteNode e i = Returned () e)"
  unfolding updateNodePosition_def updateNodeText_def updateNodeType_def updateNodeStatus_def
    updateNodeNotes_def updateConnectionStyle_def updateConnectionStatus_def
  using updateNode_missing [OF assms] updateConnection_missing [OF assms]
    updateConnectionLabel_missing [OF assms]
    deleteConnection_missing [OF assms] deleteNode_missing [OF assms]
  by blast

theorem missing_id_is_noop_witness:
  "getCurrentFlowchart danglingEditor \<noteq> None \<and>
   returned (findNodeById danglingEditor ''node-5'') = Some None \<and>
   returned (findConnectionById danglingEditor ''node-5'') = Some None \<and>
   updateNodePosition danglingEditor ''node-5'' 3 4 = Returned () danglingEditor \<and>
   updateNodeStatus danglingEditor ''node-5'' ''approved'' = Returned () danglingEditor \<and>
   updateConnectionLabel danglingEditor ''node-5'' ''yes'' = Returned () danglingEditor \<and>
   deleteConnection danglingEditor ''node-5'' = Returned () danglingEditor \<and>
   deleteNode danglingEditor ''node-5'' = Returned () danglingEditor"
proof -
  let ?f = "\<lparr> fid = ''flowchart-1'', ftitle = ''Main Process'', fdescription = [],
              nodes = [newNode 1 ''process'' 0 0],
              connections = [newConnection 1 ''node-9'' ''node-1'' []], questions = [] \<rparr>"
  have f: "getCurrentFlowchart danglingEditor = Some ?f"
    by (simp add: danglingEditor_def editor_defs)
  have n: "find (\<lambda>n. nid n = ''node-5'') (nodes ?f) = None"
    by (simp add: editor_defs)
  have c: "find (\<lambda>c. cid c = ''node-5'') (connections ?f) = None"
    by (simp add: editor_defs)
  have d: "\<forall>c\<in>set (connections ?f). cfrom c \<noteq> ''node-5'' \<and> cto c \<noteq> ''node-5''"
    by (simp add: editor_defs)
  note t = missing_id_is_noop [OF f, of "''node-5''" 3 4 "[]" "[]" "''approved''" "[]" "''yes''" "[]"]
  have r1: "returned (findNodeById danglingEditor ''node-5'') = Some None"
    using f n by (simp add: findNodeById_def)
  have r2: "returned (findConnectionById danglingEditor ''node-5'') = Some None"
    using f c by (simp add: findConnectionById_def)
  from t n c d f r1 r2 show ?thesis by simp
qed

text \<open>
  The claim as stated fails for \<open>deleteNode\<close>: the id \<open>node-9\<close> resolves to no node and to
  no connection, and deleting it removes the connection that has it as \<open>from\<close>.
\<close>

theorem missing_id_counterexample:
  "returned (findNodeById danglingEditor ''node-9'') = Some None \<and>
   returned (findConnectionById danglingEditor ''node-9'') = Some None \<and>
   map_option connections (getCurrentFlowchart danglingEditor)
     = Some [newConnection 1 ''node-9'' ''node-1'' []] \<and>
   map_option connections (getCurrentFlowchart (editor_of (deleteNode danglingEditor ''node-9'')))
     = Some [] \<and>
   deleteNode danglingEditor ''node-9'' \<noteq> Returned () danglingEditor"
proof -
  have a: "returned (findNodeById danglingEditor ''node-9'') = Some None"
    by (simp add: danglingEditor_def editor_defs)
  have b: "returned (findConnectionById danglingEditor ''node-9'') = Some None"
    by (simp add: danglingEditor_def editor_defs)
  have c: "map_option connections (getCurrentFlowchart danglingEditor)
     = Some [newConnection 1 ''node-9'' ''node-1'' []]"
    by (simp add: danglingEditor_def editor_defs)
  have d: "map_option connections
      (getCurrentFlowchart (editor_of (deleteNode danglingEditor ''node-9''))) = Some []"
    by (simp add: danglingEditor_def editor_defs)
  have "deleteNode danglingEditor ''node-9'' \<noteq> Returned () danglingEditor"
  proof
    assume "deleteNode danglingEditor ''node-9'' = Returned () danglingEditor"
    then have "editor_of (deleteNode danglingEditor ''node-9'') = danglingEditor" by simp
    with d have "map_option connections (getCurrentFlowchart danglingEditor) = Some []"
      by (simp only:)
    with c show False by (simp only: option.inject) simp
  qed
  with a b c d show ?thesis by (intro conjI)
qed

subsection \<open>Sequences of calls from a fresh editor\<close>

lemma toString_inj:
  assumes "toString a = toString b"
  shows "a = b"
proof -
  have "parseInt (toString a) = parseInt (toString b)"
    by (simp only: assms)
  then show ?thesis
    by (simp only: parseInt_toString)
qed

lemma node_ids_ok_new: "node_ids_ok (new_editor now b)"
  unfolding node_ids_ok_def new_editor_def getCurrentFlowchart_def by simp

lemma node_ids_ok_addNode:
  assumes "node_ids_ok e"
  shows "node_ids_ok (editor_of (addNode e t x y))"
proof -
  from assms obtain f where
    f: "getCurrentFlowchart e = Some f" "distinct (map nid (nodes f))"
       "\<forall>n\<in>set (nodes f). \<exists>k<nextNodeId e. nid n = ''node-'' @ toString k"
    unfolding node_ids_ok_def by blast
  let ?n = "newNode (nextNodeId e) t x y"
  let ?e' = "updateCurrentFlowchart (\<lambda>f. f\<lparr>nodes := nodes f @ [?n]\<rparr>)
        (e\<lparr>nextNodeId := nextNodeId e + 1\<rparr>)"
  have e': "editor_of (addNode e t x y) = ?e'"
    by (simp add: addNode_Returned [OF f(1)])
  have g: "getCurrentFlowchart ?e' = Some (f\<lparr>nodes := nodes f @ [?n]\<rparr>)"
    using getCurrentFlowchart_update [OF f(1)] by simp
  have c: "nextNodeId ?e' = nextNodeId e + 1"
    by (simp add: updateCurrentFlowchart_def)
  have i: "nid ?n = ''node-'' @ toString (nextNodeId e)"
    by (simp add: newNode_def)
  have fresh: "nid ?n \<notin> set (map nid (nodes f))"
  proof
    assume "nid ?n \<in> set (map nid (nodes f))"
    then obtain m where m: "m \<in> set (nodes f)" "nid m = nid ?n" by auto
    with f(3) obtain k where k: "k < nextNodeId e" "nid m = ''node-'' @ toString k" by blast
    with m(2) i have "toString k = toString (nextNodeId e)" by simp
    then have "k = nextNodeId e" by (rule toString_inj)
    with k(1) show False by simp
  qed
  have d: "distinct (map nid (nodes f @ [?n]))"
    using f(2) fresh by simp
  have b: "\<forall>n\<in>set (nodes f @ [?n]). \<exists>k<nextNodeId e + 1. nid n = ''node-'' @ toString k"
  proof
    fix n assume "n \<in> set (nodes f @ [?n])"
    then consider "n \<in> set (nodes f)" | "n = ?n" by auto
    then show "\<exists>k<nextNodeId e + 1. nid n = ''node-'' @ toString k"
    proof cases
      case 1
      with f(3) obtain k where "k < nextNodeId e" "nid n = ''node-'' @ toString k" by blast
      then show ?thesis by (intro exI [of _ k]) simp
    next
      case 2
      then show ?thesis using i by (intro exI [of _ "nextNodeId e"]) simp
    qed
  qed
  show ?thesis
    unfolding e' node_ids_ok_def c using g d b by simp
qed

lemma node_ids_ok_deleteNode:
  assumes "node_ids_ok e"
  shows "node_ids_ok (editor_of (deleteNode e i))"
proof -
  from assms obtain f where
    f: "getCurrentFlowchart e = Some f" "distinct (map nid (nodes f))"
       "\<forall>n\<in>set (nodes f). \<exists>k<nextNodeId e. nid n = ''node-'' @ toString k"
    unfolding node_ids_ok_def by blast
  let ?g = "\<lambda>f. f\<lparr>nodes := filter (\<lambda>n. nid n \<noteq> i) (nodes f),
                   connections := filter (\<lambda>c. cfrom c \<noteq> i \<and> cto c \<noteq> i) (connections f)\<rparr>"
  have e': "editor_of (deleteNode e i) = updateCurrentFlowchart ?g e"
    by (simp add: deleteNode_def f(1))
  have g: "getCurrentFlowchart (updateCurrentFlowchart ?g e) = Some (?g f)"
    by (rule getCurrentFlowchart_update [OF f(1)])
  have c: "nextNodeId (updateCurrentFlowchart ?g e) = nextNodeId e"
    by (simp add: updateCurrentFlowchart_def)
  have d: "distinct (map nid (filter (\<lambda>n. nid n \<noteq> i) (nodes f)))"
    using f(2) by (rule distinct_map_filter)
  show ?thesis
    unfolding e' node_ids_ok_def c using g d f(3) by simp
qed

lemma node_ids_ok_addConnection:
  assumes "node_ids_ok e"
  shows "node_ids_ok (editor_of (addConnection e a b l))"
proof -
  from assms obtain f where
    f: "getCurrentFlowchart e = Some f" "distinct (map nid (nodes f))"
       "\<forall>n\<in>set (nodes f). \<exists>k<nextNodeId e. nid n = ''node-'' @ toString k"
    unfolding node_ids_ok_def by blast
  let ?g = "\<lambda>f. f\<lparr>connections := connections f @ [newConnection (nextConnectionId e) a b l]\<rparr>"
  let ?e' = "updateCurrentFlowchart ?g (e\<lparr>nextConnectionId := nextConnectionId e + 1\<rparr>)"
  have e': "editor_of (addConnection e a b l) = ?e'"
    by (simp add: addConnection_Returned [OF f(1)])
  have g: "getCurrentFlowchart ?e' = Some (?g f)"
    using getCurrentFlowchart_update [OF f(1)] by simp
  have c: "nextNodeId ?e' = nextNodeId e"
    by (simp add: updateCurrentFlowchart_def)
  show ?thesis
    unfolding e' node_ids_ok_def c using g f(2,3) by simp
qed

lemma clearAll_Returned:
  "getCurrentFlowchart e = Some f \<Longrightarrow>
   clearAll e = Returned ()
     ((updateCurrentFlowchart (\<lambda>f. f\<lparr>nodes := [], connections := [], questions := []\<rparr>) e)
        \<lparr>selectedElement := None\<rparr>)"
  unfolding clearAll_def clearSelection_def by simp

lemma node_ids_ok_clearAll:
  assumes "node_ids_ok e"
  shows "node_ids_ok (editor_of (clearAll e))"
proof -
  from assms obtain f where f: "getCurrentFlowchart e = Some f"
    unfolding node_ids_ok_def by blast
  let ?g = "\<lambda>f. f\<lparr>nodes := [], connections := [], questions := []\<rparr>"
  have g: "getCurrentFlowchart ((updateCurrentFlowchart ?g e)\<lparr>selectedElement := None\<rparr>)
             = Some (?g f)"
    using getCurrentFlowchart_update [OF f] by simp
  show ?thesis
    unfolding clearAll_Returned [OF f] node_ids_ok_def editor_of.simps using g by simp
qed

lemma node_ids_ok_apply_op: "node_ids_ok e \<Longrightarrow> node_ids_ok (apply_op e c)"
  by (cases c)
    (simp_all add: node_ids_ok_addNode node_ids_ok_deleteNode node_ids_ok_addConnection
      node_ids_ok_clearAll)

lemma run_Cons: "run e (c # ops) = run (apply_op e c) ops"
  unfolding run_def by simp

lemma node_ids_ok_run: "node_ids_ok e \<Longrightarrow> node_ids_ok (run e ops)"
proof (induction ops arbitrary: e)
  case Nil
  then show ?case by (simp add: run_def)
next
  case (Cons c ops)
  then show ?case by (simp add: run_Cons node_ids_ok_apply_op)
qed

lemma deleteNode_Returned:
  "getCurrentFlowchart e = Some f \<Longrightarrow>
   deleteNode e i = Returned ()
     (updateCurrentFlowchart
        (\<lambda>f. f\<lparr>nodes := filter (\<lambda>n. nid n \<noteq> i) (nodes f),
                connections := filter (\<lambda>c. cfrom c \<noteq> i \<and> cto c \<noteq> i) (connections f)\<rparr>) e)"
  unfolding deleteNode_def by simp

text \<open>
  Claim C4. After any sequence of \<open>addNode\<close>, \<open>deleteNode\<close> (and \<open>addConnection\<close>,
  \<open>clearAll\<close>) calls on a fresh editor, the node ids of the active section are pairwise
  different. And in any editor with an active section, \<open>deleteNode(id)\<close> returns, keeps
  exactly the nodes whose id is not \<open>id\<close> and exactly the connections whose \<open>from\<close> and
  \<open>to\<close> both differ from \<open>id\<close>, each unchanged and in its place, and changes nothing
  else; afterwards no node has that id and no connection has it as an endpoint.
\<close>

theorem deleteNode_cascade_and_distinct_ids:
  "(\<exists>f. getCurrentFlowchart (run (new_editor now b) ops) = Some f \<and>
        distinct (map nid (nodes f))) \<and>
   (getCurrentFlowchart e = Some f \<longrightarrow>
      (\<exists>e' f'. deleteNode e i = Returned () e' \<and> getCurrentFlowchart e' = Some f' \<and>
         nodes f' = filter (\<lambda>n. nid n \<noteq> i) (nodes f) \<and>
         connections f' = filter (\<lambda>c. cfrom c \<noteq> i \<and> cto c \<noteq> i) (connections f) \<and>
         (\<forall>n\<in>set (nodes f'). nid n \<noteq> i) \<and>
         (\<forall>c\<in>set (connections f'). cfrom c \<noteq> i \<and> cto c \<noteq> i) \<and>
         f' = f\<lparr>nodes := nodes f', connections := connections f'\<rparr> \<and>
         e' = e\<lparr>data := (data e)\<lparr>flowcharts := f' # tl (flowcharts (data e))\<rparr>\<rparr>))"
proof (intro conjI impI)
  have "node_ids_ok (run (new_editor now b) ops)"
    by (intro node_ids_ok_run node_ids_ok_new)
  then show "\<exists>f. getCurrentFlowchart (run (new_editor now b) ops) = Some f \<and>
        distinct (map nid (nodes f))"
    unfolding node_ids_ok_def by blast
next
  assume f: "getCurrentFlowchart e = Some f"
  let ?g = "\<lambda>f. f\<lparr>nodes := filter (\<lambda>n. nid n \<noteq> i) (nodes f),
                   connections := filter (\<lambda>c. cfrom c \<noteq> i \<and> cto c \<noteq> i) (connections f)\<rparr>"
  have g: "getCurrentFlowchart (updateCurrentFlowchart ?g e) = Some (?g f)"
    by (rule getCurrentFlowchart_update [OF f])
  have u: "updateCurrentFlowchart ?g e =
             e\<lparr>data := (data e)\<lparr>flowcharts := ?g f # tl (flowcharts (data e))\<rparr>\<rparr>"
    using f unfolding updateCurrentFlowchart_def getCurrentFlowchart_def
    by (auto split: list.splits)
  show "\<exists>e' f'. deleteNode e i = Returned () e' \<and> getCurrentFlowchart e' = Some f' \<and>
         nodes f' = filter (\<lambda>n. nid n \<noteq> i) (nodes f) \<and>
         connections f' = filter (\<lambda>c. cfrom c \<noteq> i \<and> cto c \<noteq> i) (connections f) \<and>
         (\<forall>n\<in>set (nodes f'). nid n \<noteq> i) \<and>
         (\<forall>c\<in>set (connections f'). cfrom c \<noteq> i \<and> cto c \<noteq> i) \<and>
         f' = f\<lparr>nodes := nodes f', connections := connections f'\<rparr> \<and>
         e' = e\<lparr>data := (data e)\<lparr>flowcharts := f' # tl (flowcharts (data e))\<rparr>\<rparr>"
    apply (rule exI [of _ "updateCurrentFlowchart ?g e"])
    apply (rule exI [of _ "?g f"])
    apply (intro conjI)
           apply (rule deleteNode_Returned [OF f])
          apply (rule g)
         apply simp
        apply simp
       apply simp
      apply simp
     apply simp
    apply (rule u)
    done
qed

lemmas run_defs = run_def cascadeOps_def

theorem deleteNode_cascade_and_distinct_ids_witness:
  "map_option (map cid \<circ> connections) (getCurrentFlowchart (run (new_editor [] True) cascadeOps))
     = Some [''conn-1'', ''conn-2'', ''conn-3''] \<and>
   map_option (map nid \<circ> nodes)
     (getCurrentFlowchart (editor_of (deleteNode (run (new_editor [] True) cascadeOps) ''node-1'')))
     = Some [''node-2'', ''node-3''] \<and>
   map_option (map cid \<circ> connections)
     (getCurrentFlowchart (editor_of (deleteNode (run (new_editor [] True) cascadeOps) ''node-1'')))
     = Some [''conn-3'']"
proof -
  let ?e = "run (new_editor [] True) cascadeOps"
  obtain f where f: "getCurrentFlowchart ?e = Some f"
    using deleteNode_cascade_and_distinct_ids [of "[]" True cascadeOps] by blast
  have "map_option (map nid \<circ> nodes) (getCurrentFlowchart ?e)
      = Some [''node-1'', ''node-2'', ''node-3'']"
    by (simp add: run_defs editor_defs deleteNode_def)
  then have n: "map nid (nodes f) = [''node-1'', ''node-2'', ''node-3'']"
    unfolding f by simp
  have "map_option (map (\<lambda>c. (cid c, cfrom c, cto c)) \<circ> connections)
      (getCurrentFlowchart ?e) =
      Some [(''conn-1'', ''node-1'', ''node-2''), (''conn-2'', ''node-3'', ''node-1''),
       (''conn-3'', ''node-2'', ''node-3'')]"
    by (simp add: run_defs editor_defs deleteNode_def)
  then have c: "map (\<lambda>c. (cid c, cfrom c, cto c)) (connections f) =
      [(''conn-1'', ''node-1'', ''node-2''), (''conn-2'', ''node-3'', ''node-1''),
       (''conn-3'', ''node-2'', ''node-3'')]"
    unfolding f by simp
  from deleteNode_cascade_and_distinct_ids [of "[]" True "[]" ?e f "''node-1''"] f
  obtain e' f' where
    d: "deleteNode ?e ''node-1'' = Returned () e'" "getCurrentFlowchart e' = Some f'"
       "nodes f' = filter (\<lambda>n. nid n \<noteq> ''node-1'') (nodes f)"
       "connections f' = filter (\<lambda>c. cfrom c \<noteq> ''node-1'' \<and> cto c \<noteq> ''node-1'') (connections f)"
    by blast
  have n': "map nid (nodes f') = filter (\<lambda>i. i \<noteq> ''node-1'') (map nid (nodes f))"
    unfolding d(3) by (simp add: filter_map comp_def)
  have c': "map (\<lambda>c. (cid c, cfrom c, cto c)) (connections f') =
      filter (\<lambda>(i, a, b). a \<noteq> ''node-1'' \<and> b \<noteq> ''node-1'')
        (map (\<lambda>c. (cid c, cfrom c, cto c)) (connections f))"
    unfolding d(4) by (simp add: filter_map comp_def)
  have c'': "map cid (connections f') = map fst (map (\<lambda>c. (cid c, cfrom c, cto c)) (connections f'))"
    by simp
  have c0: "map cid (connections f) = map fst (map (\<lambda>c. (cid c, cfrom c, cto c)) (connections f))"
    by simp
  have r1: "map cid (connections f) = [''conn-1'', ''conn-2'', ''conn-3'']"
    unfolding c0 c by simp
  have r2: "map nid (nodes f') = [''node-2'', ''node-3'']"
    unfolding n' n by simp
  have r3: "map cid (connections f') = [''conn-3'']"
    unfolding c'' c' c by simp
  show ?thesis
    unfolding d(1) editor_of.simps d(2) f using r1 r2 r3 by simp
qed

subsection \<open>Clearing\<close>

lemma updateCurrentFlowchart_frame [simp]:
  "nextNodeId (updateCurrentFlowchart g e) = nextNodeId e"
  "nextConnectionId (updateCurrentFlowchart g e) = nextConnectionId e"
  "nextQuestionId (updateCurrentFlowchart g e) = nextQuestionId e"
  "version (data (updateCurrentFlowchart g e)) = version (data e)"
  "timestamp (data (updateCurrentFlowchart g e)) = timestamp (data e)"
  "title (data (updateCurrentFlowchart g e)) = title (data e)"
  "description (data (updateCurrentFlowchart g e)) = description (data e)"
  "generalNotes (data (updateCurrentFlowchart g e)) = generalNotes (data e)"
  unfolding updateCurrentFlowchart_def by simp_all






subsection \<open>Edge boundary points\<close>

lemmas geometry_defs = getNodeEdgePoint_def calculateConnectionPath_def newNode_def
  getDefaultNodeSize_def Let_def

text \<open>
  Claim C5. For a node whose type is none of \<open>start\<close>, \<open>end\<close>, \<open>decision\<close> (the default
  branch: process, connector and anything else), with center \<open>(cx, cy)\<close>, half sizes
  \<open>hw\<close>, \<open>hh\<close> and \<open>(dx, dy)\<close> the vector from the center to the target point: if
  \<open>|dx| * hh > |dy| * hw\<close> the point is on the left or right edge, \<open>x = cx \<plusminus> hw\<close> by the
  sign of \<open>dx\<close> and \<open>y = cy + dy * hw / |dx|\<close>; otherwise it is on the top or bottom edge,
  \<open>y = cy \<plusminus> hh\<close> by the sign of \<open>dy\<close> and \<open>x = cx + dx * hh / |dy|\<close> (in each case when the
  divisor is not zero). For two process nodes of size 120 by 60 centered at \<open>(0, 0)\<close> and
  \<open>(200, 0)\<close> the path starts at \<open>(60, 0)\<close> and ends at \<open>(140, 0)\<close>.
\<close>

theorem rectangle_edge_point:
  "(ntype n \<notin> {''start'', ''end'', ''decision''} \<longrightarrow>
      (let cx = nx n + nwidth n / 2; cy = ny n + nheight n / 2;
           hw = nwidth n / 2; hh = nheight n / 2;
           dx = px t - cx; dy = py t - cy
       in (\<bar>dx\<bar> * hh > \<bar>dy\<bar> * hw \<and> dx \<noteq> 0 \<longrightarrow>
             getNodeEdgePoint n t =
               Some \<lparr> px = (if dx > 0 then cx + hw else cx - hw),
                      py = cy + dy * hw / \<bar>dx\<bar> \<rparr>) \<and>
          (\<not> \<bar>dx\<bar> * hh > \<bar>dy\<bar> * hw \<and> dy \<noteq> 0 \<longrightarrow>
             getNodeEdgePoint n t =
               Some \<lparr> px = cx + dx * hh / \<bar>dy\<bar>,
                      py = (if dy > 0 then cy + hh else cy - hh) \<rparr>))) \<and>
   map_option c_start
     (calculateConnectionPath (newNode 1 ''process'' (- 60) (- 30))
                              (newNode 2 ''process'' 140 (- 30)))
     = Some \<lparr> px = 60, py = 0 \<rparr> \<and>
   map_option c_end
     (calculateConnectionPath (newNode 1 ''process'' (- 60) (- 30))
                              (newNode 2 ''process'' 140 (- 30)))
     = Some \<lparr> px = 140, py = 0 \<rparr>"
proof (intro conjI impI)
  assume "ntype n \<notin> {''start'', ''end'', ''decision''}"
  then have t: "ntype n \<noteq> ''start''" "ntype n \<noteq> ''end''" "ntype n \<noteq> ''decision''"
    by simp_all
  show "let cx = nx n + nwidth n / 2; cy = ny n + nheight n / 2;
           hw = nwidth n / 2; hh = nheight n / 2;
           dx = px t - cx; dy = py t - cy
       in (\<bar>dx\<bar> * hh > \<bar>dy\<bar> * hw \<and> dx \<noteq> 0 \<longrightarrow>
             getNodeEdgePoint n t =
               Some \<lparr> px = (if dx > 0 then cx + hw else cx - hw),
                      py = cy + dy * hw / \<bar>dx\<bar> \<rparr>) \<and>
          (\<not> \<bar>dx\<bar> * hh > \<bar>dy\<bar> * hw \<and> dy \<noteq> 0 \<longrightarrow>
             getNodeEdgePoint n t =
               Some \<lparr> px = cx + dx * hh / \<bar>dy\<bar>,
                      py = (if dy > 0 then cy + hh else cy - hh) \<rparr>)"
    unfolding getNodeEdgePoint_def Let_def using t by simp
next
  show "map_option c_start
     (calculateConnectionPath (newNode 1 ''process'' (- 60) (- 30))
                              (newNode 2 ''process'' 140 (- 30)))
     = Some \<lparr> px = 60, py = 0 \<rparr>"
    by (simp add: geometry_defs)
next
  show "map_option c_end
     (calculateConnectionPath (newNode 1 ''process'' (- 60) (- 30))
                              (newNode 2 ''process'' 140 (- 30)))
     = Some \<lparr> px = 140, py = 0 \<rparr>"
    by (simp add: geometry_defs)
qed

theorem rectangle_edge_point_witness:
  "ntype (newNode 1 ''process'' (- 60) (- 30)) \<notin> {''start'', ''end'', ''decision''} \<and>
   \<bar>200 :: real\<bar> * 30 > \<bar>0\<bar> * 60 \<and>
   getNodeEdgePoint (newNode 1 ''process'' (- 60) (- 30)) \<lparr> px = 200, py = 0 \<rparr>
     = Some \<lparr> px = 60, py = 0 \<rparr> \<and>
   \<not> \<bar>0 :: real\<bar> * 15 > \<bar>- 100\<bar> * 15 \<and>
   getNodeEdgePoint (newNode 3 ''connector'' 0 85) \<lparr> px = 15, py = 0 \<rparr>
     = Some \<lparr> px = 15, py = 85 \<rparr>"
proof -
  let ?n = "newNode 1 ''process'' (- 60) (- 30)"
  let ?m = "newNode 3 ''connector'' 0 85"
  have a: "ntype ?n \<notin> {''start'', ''end'', ''decision''}"
    by (simp add: newNode_def)
  have b: "ntype ?m \<notin> {''start'', ''end'', ''decision''}"
    by (simp add: newNode_def)
  have "getNodeEdgePoint ?n \<lparr> px = 200, py = 0 \<rparr> = Some \<lparr> px = 60, py = 0 \<rparr>"
    using rectangle_edge_point [of ?n "\<lparr> px = 200, py = 0 \<rparr>"] a
    by (simp add: newNode_def getDefaultNodeSize_def Let_def)
  moreover have "getNodeEdgePoint ?m \<lparr> px = 15, py = 0 \<rparr> = Some \<lparr> px = 15, py = 85 \<rparr>"
    using rectangle_edge_point [of ?m "\<lparr> px = 15, py = 0 \<rparr>"] b
    by (simp add: newNode_def getDefaultNodeSize_def Let_def)
  ultimately show ?thesis using a by simp
qed

subsection \<open>Fit to screen\<close>

lemma calculateBounds_box:
  assumes "ns \<noteq> []"
  shows "\<exists>b. calculateBounds ns = Some b \<and>
           b_minX b = Min (nx ` set ns) \<and> b_minY b = Min (ny ` set ns) \<and>
           b_minX b + b_width b = Max ((\<lambda>n. nx n + nwidth n) ` set ns) \<and>
           b_minY b + b_height b = Max ((\<lambda>n. ny n + nheight n) ` set ns)"
proof -
  from assms obtain n rest where ns: "ns = n # rest" by (cases ns) auto
  have a: "fold min (map nx rest) (nx n) = Min (nx ` set ns)"
    unfolding ns using Min.set_eq_fold [of "nx n" "map nx rest"] by simp
  have b: "fold min (map ny rest) (ny n) = Min (ny ` set ns)"
    unfolding ns using Min.set_eq_fold [of "ny n" "map ny rest"] by simp
  have c: "fold max (map (\<lambda>n. nx n + nwidth n) rest) (nx n + nwidth n)
             = Max ((\<lambda>n. nx n + nwidth n) ` set ns)"
    unfolding ns
    using Max.set_eq_fold [of "nx n + nwidth n" "map (\<lambda>n. nx n + nwidth n) rest"] by simp
  have d: "fold max (map (\<lambda>n. ny n + nheight n) rest) (ny n + nheight n)
             = Max ((\<lambda>n. ny n + nheight n) ` set ns)"
    unfolding ns
    using Max.set_eq_fold [of "ny n + nheight n" "map (\<lambda>n. ny n + nheight n) rest"] by simp
  show ?thesis
    unfolding calculateBounds_def ns list.case Let_def
    using a b c d unfolding ns by simp
qed

lemma fit_center:
  fixes k w W m :: real
  shows "(W - w * k) / 2 - m * k + k * (m + w / 2) = W / 2"
  by (simp add: field_simps)

lemma fit_scale_le:
  fixes W w :: real
  assumes "0 < w"
  shows "min (W / w) r * w \<le> W"
proof -
  have "min (W / w) r * w \<le> (W / w) * w"
    using assms by (intro mult_right_mono) simp_all
  also have "\<dots> = W" using assms by simp
  finally show ?thesis .
qed

text \<open>
  Claim C6. With no node in the active section \<open>fitToScreen\<close> returns the canvas
  unchanged. Otherwise \<open>calculateBounds\<close> is the bounding box of the node boxes (least
  \<open>x\<close> and \<open>y\<close>, greatest \<open>x + width\<close> and \<open>y + height\<close>), and, the two padded sizes being
  non-zero, the new transform has the scale
  \<open>min (W / (width + 2 * 50)) (H / (height + 2 * 50))\<close> for the viewport \<open>W\<close> by \<open>H\<close> and
  maps the center of the box to the center of the viewport; for positive padded sizes
  the image of the padded box is no larger than the viewport. For the single node at
  \<open>(10, 10)\<close> of size 100 by 60 in an 800 by 600 viewport the scale is
  \<open>min (800 / 200) (600 / 160)\<close> and the center \<open>(60, 40)\<close> of the box goes to \<open>(400, 300)\<close>.
\<close>

theorem fitToScreen_centers:
  "(getCurrentFlowchart e = Some f \<and> nodes f = [] \<longrightarrow> fitToScreen e c = Fitted c) \<and>
   (getCurrentFlowchart e = Some f \<and> nodes f \<noteq> [] \<longrightarrow>
      (\<exists>b. calculateBounds (nodes f) = Some b \<and>
         b_minX b = Min (nx ` set (nodes f)) \<and> b_minY b = Min (ny ` set (nodes f)) \<and>
         b_minX b + b_width b = Max ((\<lambda>n. nx n + nwidth n) ` set (nodes f)) \<and>
         b_minY b + b_height b = Max ((\<lambda>n. ny n + nheight n) ` set (nodes f)) \<and>
         (b_width b + 2 * 50 \<noteq> 0 \<and> b_height b + 2 * 50 \<noteq> 0 \<longrightarrow>
            (\<exists>c'. fitToScreen e c = Fitted c' \<and>
               svgWidth c' = svgWidth c \<and> svgHeight c' = svgHeight c \<and>
               t_k (zoomTransform c') =
                 min (svgWidth c / (b_width b + 2 * 50)) (svgHeight c / (b_height b + 2 * 50)) \<and>
               applyTransform (zoomTransform c')
                   \<lparr> px = b_minX b + b_width b / 2, py = b_minY b + b_height b / 2 \<rparr>
                 = \<lparr> px = svgWidth c / 2, py = svgHeight c / 2 \<rparr> \<and>
               (0 < b_width b + 2 * 50 \<and> 0 < b_height b + 2 * 50 \<longrightarrow>
                  t_k (zoomTransform c') * (b_width b + 2 * 50) \<le> svgWidth c \<and>
                  t_k (zoomTransform c') * (b_height b + 2 * 50) \<le> svgHeight c))))) \<and>
   map_option (map (\<lambda>n. (nx n, ny n, nwidth n, nheight n)) \<circ> nodes)
       (getCurrentFlowchart singleNodeEditor) = Some [(10, 10, 100, 60)] \<and>
   fitToScreen singleNodeEditor \<lparr> zoomTransform = t0, svgWidth = 800, svgHeight = 600 \<rparr>
     = Fitted \<lparr> zoomTransform = \<lparr> t_k = min (800 / 200) (600 / 160),
                                   t_x = 175, t_y = 150 \<rparr>,
                svgWidth = 800, svgHeight = 600 \<rparr> \<and>
   applyTransform \<lparr> t_k = min (800 / 200) (600 / 160), t_x = 175, t_y = 150 \<rparr>
       \<lparr> px = 60, py = 40 \<rparr> = \<lparr> px = 400, py = 300 \<rparr>"
proof (intro conjI impI)
  assume "getCurrentFlowchart e = Some f \<and> nodes f = []"
  then show "fitToScreen e c = Fitted c"
    by (simp add: fitToScreen_def)
next
  assume h: "getCurrentFlowchart e = Some f \<and> nodes f \<noteq> []"
  then have ne: "nodes f \<noteq> []" and f: "getCurrentFlowchart e = Some f" by simp_all
  from calculateBounds_box [OF ne] obtain b where
    b: "calculateBounds (nodes f) = Some b"
       "b_minX b = Min (nx ` set (nodes f))" "b_minY b = Min (ny ` set (nodes f))"
       "b_minX b + b_width b = Max ((\<lambda>n. nx n + nwidth n) ` set (nodes f))"
       "b_minY b + b_height b = Max ((\<lambda>n. ny n + nheight n) ` set (nodes f))"
    by blast
  let ?k = "min (svgWidth c / (b_width b + 2 * 50)) (svgHeight c / (b_height b + 2 * 50))"
  let ?c' = "c\<lparr>zoomTransform :=
      \<lparr> t_k = ?k, t_x = (svgWidth c - b_width b * ?k) / 2 - b_minX b * ?k,
        t_y = (svgHeight c - b_height b * ?k) / 2 - b_minY b * ?k \<rparr>\<rparr>"
  have fit: "b_width b + 2 * 50 \<noteq> 0 \<and> b_height b + 2 * 50 \<noteq> 0 \<Longrightarrow>
      fitToScreen e c = Fitted ?c'"
    using f ne b(1) by (simp add: fitToScreen_def Let_def mult.commute)
  have ctr: "applyTransform (zoomTransform ?c')
                   \<lparr> px = b_minX b + b_width b / 2, py = b_minY b + b_height b / 2 \<rparr>
                 = \<lparr> px = svgWidth c / 2, py = svgHeight c / 2 \<rparr>"
    unfolding applyTransform_def by (simp add: fit_center)
  have le: "0 < b_width b + 2 * 50 \<and> 0 < b_height b + 2 * 50 \<Longrightarrow>
      t_k (zoomTransform ?c') * (b_width b + 2 * 50) \<le> svgWidth c \<and>
      t_k (zoomTransform ?c') * (b_height b + 2 * 50) \<le> svgHeight c"
    using fit_scale_le [of "b_width b + 2 * 50" "svgWidth c"
        "svgHeight c / (b_height b + 2 * 50)"]
      fit_scale_le [of "b_height b + 2 * 50" "svgHeight c"
        "svgWidth c / (b_width b + 2 * 50)"]
    by (simp add: min.commute)
  show "\<exists>b. calculateBounds (nodes f) = Some b \<and>
         b_minX b = Min (nx ` set (nodes f)) \<and> b_minY b = Min (ny ` set (nodes f)) \<and>
         b_minX b + b_width b = Max ((\<lambda>n. nx n + nwidth n) ` set (nodes f)) \<and>
         b_minY b + b_height b = Max ((\<lambda>n. ny n + nheight n) ` set (nodes f)) \<and>
         (b_width b + 2 * 50 \<noteq> 0 \<and> b_height b + 2 * 50 \<noteq> 0 \<longrightarrow>
            (\<exists>c'. fitToScreen e c = Fitted c' \<and>
               svgWidth c' = svgWidth c \<and> svgHeight c' = svgHeight c \<and>
               t_k (zoomTransform c') =
                 min (svgWidth c / (b_width b + 2 * 50)) (svgHeight c / (b_height b + 2 * 50)) \<and>
               applyTransform (zoomTransform c')
                   \<lparr> px = b_minX b + b_width b / 2, py = b_minY b + b_height b / 2 \<rparr>
                 = \<lparr> px = svgWidth c / 2, py = svgHeight c / 2 \<rparr> \<and>
               (0 < b_width b + 2 * 50 \<and> 0 < b_height b + 2 * 50 \<longrightarrow>
                  t_k (zoomTransform c') * (b_width b + 2 * 50) \<le> svgWidth c \<and>
                  t_k (zoomTransform c') * (b_height b + 2 * 50) \<le> svgHeight c)))"
    apply (rule exI [of _ b])
    apply (intro conjI impI)
        apply (rule b)+
    apply (rule exI [of _ ?c'])
    apply (intro conjI impI)
         apply (erule fit)
        apply simp
       apply simp
      apply simp
      apply (rule ctr)
     apply (use le in blast)
    apply (use le in blast)
    done
next
  show "map_option (map (\<lambda>n. (nx n, ny n, nwidth n, nheight n)) \<circ> nodes)
       (getCurrentFlowchart singleNodeEditor) = Some [(10, 10, 100, 60)]"
    by (simp add: singleNodeEditor_def editor_defs getDefaultNodeSize_def)
next
  show "fitToScreen singleNodeEditor \<lparr> zoomTransform = t0, svgWidth = 800, svgHeight = 600 \<rparr>
     = Fitted \<lparr> zoomTransform = \<lparr> t_k = min (800 / 200) (600 / 160),
                                   t_x = 175, t_y = 150 \<rparr>,
                svgWidth = 800, svgHeight = 600 \<rparr>"
    by (simp add: singleNodeEditor_def editor_defs getDefaultNodeSize_def fitToScreen_def
        calculateBounds_def)
next
  show "applyTransform \<lparr> t_k = min (800 / 200) (600 / 160), t_x = 175, t_y = 150 \<rparr>
       \<lparr> px = 60, py = 40 \<rparr> = \<lparr> px = 400, py = 300 \<rparr>"
    by (simp add: applyTransform_def)
qed

theorem fitToScreen_centers_witness:
  "map_option nodes (getCurrentFlowchart (new_editor [] True)) = Some [] \<and>
   fitToScreen (new_editor [] True)
       \<lparr> zoomTransform = \<lparr> t_k = 2, t_x = 5, t_y = 7 \<rparr>, svgWidth = 800, svgHeight = 600 \<rparr>
     = Fitted \<lparr> zoomTransform = \<lparr> t_k = 2, t_x = 5, t_y = 7 \<rparr>,
                svgWidth = 800, svgHeight = 600 \<rparr> \<and>
   map_option b_width (calculateBounds [newNode 1 ''start'' 10 10]) = Some 100 \<and>
   map_option b_height (calculateBounds [newNode 1 ''start'' 10 10]) = Some 60 \<and>
   (100 :: real) + 2 * 50 \<noteq> 0 \<and> (60 :: real) + 2 * 50 \<noteq> 0"
proof -
  let ?c = "\<lparr> zoomTransform = \<lparr> t_k = 2, t_x = 5, t_y = 7 \<rparr>, svgWidth = 800, svgHeight = 600 \<rparr>"
  let ?f0 = "\<lparr> fid = ''flowchart-1'', ftitle = ''Main Process'', fdescription = [],
               nodes = [], connections = [], questions = [] \<rparr>"
  let ?f1 = "?f0\<lparr>nodes := [newNode 1 ''start'' 10 10]\<rparr>"
  have g0: "getCurrentFlowchart (new_editor [] True) = Some ?f0"
    by (simp add: new_editor_def getCurrentFlowchart_def)
  have g1: "getCurrentFlowchart singleNodeEditor = Some ?f1"
    by (simp add: singleNodeEditor_def addNode_def Let_def new_editor_def
        getCurrentFlowchart_def updateCurrentFlowchart_def)
  have a: "fitToScreen (new_editor [] True) ?c = Fitted ?c"
    using fitToScreen_centers [of "new_editor [] True" ?f0 ?c "zoomTransform ?c"] g0 by simp
  have ne: "nodes ?f1 \<noteq> []" by simp
  note t = fitToScreen_centers [of singleNodeEditor ?f1 ?c "zoomTransform ?c"]
  from t have "getCurrentFlowchart singleNodeEditor = Some ?f1 \<and> nodes ?f1 \<noteq> [] \<longrightarrow>
      (\<exists>b. calculateBounds (nodes ?f1) = Some b \<and>
         b_minX b = Min (nx ` set (nodes ?f1)) \<and> b_minY b = Min (ny ` set (nodes ?f1)) \<and>
         b_minX b + b_width b = Max ((\<lambda>n. nx n + nwidth n) ` set (nodes ?f1)) \<and>
         b_minY b + b_height b = Max ((\<lambda>n. ny n + nheight n) ` set (nodes ?f1)))"
    by blast
  with g1 ne
  obtain b where
    b: "calculateBounds (nodes ?f1) = Some b"
       "b_minX b = Min (nx ` set (nodes ?f1))"
       "b_minX b + b_width b = Max ((\<lambda>n. nx n + nwidth n) ` set (nodes ?f1))"
       "b_minY b = Min (ny ` set (nodes ?f1))"
       "b_minY b + b_height b = Max ((\<lambda>n. ny n + nheight n) ` set (nodes ?f1))"
    by blast
  have w: "b_width b = 100"
    using b(2,3) by (simp add: newNode_def getDefaultNodeSize_def)
  have h: "b_height b = 60"
    using b(4,5) by (simp add: newNode_def getDefaultNodeSize_def)
  have cb: "calculateBounds [newNode 1 ''start'' 10 10] = Some b"
    using b(1) by simp
  show ?thesis
    unfolding cb using g0 a w h by simp
qed


end
